theory Spec2Isabelle
  imports Main
begin

section \<open>Values, ABI entries, errors\<close>

text \<open>
  Python values that travel through the contract layer as call arguments, transaction
  fields and decoded results.
\<close>

datatype pyval =
    PyNone
  | PyBool bool
  | PyInt int
  | PyStr string
  | PyBytes string
  | PyList "pyval list"
  | PyTuple "pyval list"
  | PyDict "(string \<times> pyval) list"

type_synonym address = string
type_synonym hexstr = string
type_synonym tx_params = "(string \<times> pyval) list"

datatype block_identifier = BlockTag string | BlockNumber int | BlockHash hexstr

record abi_param =
  param_name :: string
  param_type :: string
  indexed :: bool

datatype abi_kind = FunctionEntry | EventEntry | ConstructorEntry | FallbackEntry | ReceiveEntry

record abi_entry =
  entry_kind :: abi_kind
  entry_name :: string
  inputs :: "abi_param list"
  outputs :: "abi_param list"

type_synonym ABI = "abi_entry list"

text \<open>
  Exceptions are values. The first three are the Python exceptions the file raises
  itself; the others are the error kinds of the collaborators.
\<close>

datatype error =
    AttributeError string
  | TypeError string
  | ValueError string
  | NotFound string
  | NoMatchingOverload string "string list"
  | AmbiguousOverload string "string list"
  | InvalidFilterParams string
  | LogDecodeError string
  | EncodingError string
  | TransportError string

definition NotInitialized :: error where
  "NotInitialized = AttributeError
     ''The `Contract` class has not been initialized.  Please use the `web3.contract` interface to create your contract class.''"

definition MissingAddress :: error where
  "MissingAddress = TypeError ''The address argument is required to instantiate a contract.''"

definition NoBytecode :: error where
  "NoBytecode = ValueError
     ''Cannot call constructor on a contract that does not have 'bytecode' associated with it''"

section \<open>The node binding\<close>

datatype topic = AnyTopic | Topic hexstr | OneOf "hexstr list"

record filter_params =
  fp_address :: "address option"
  fp_topics :: "topic list"
  fp_fromBlock :: "block_identifier option"
  fp_toBlock :: "block_identifier option"
  fp_blockHash :: "hexstr option"

record log_entry =
  log_address :: address
  log_topics :: "hexstr list"
  log_data :: hexstr
  log_blockNumber :: int
  log_transactionHash :: hexstr
  log_logIndex :: int

record event_data =
  ed_event :: string
  ed_args :: "(string \<times> pyval) list"
  ed_log :: log_entry

text \<open>
  Every request that leaves the process is appended to a list, oldest first. A function
  that may talk to the node takes the list and returns it extended.
\<close>

datatype interaction =
    EthGetLogs filter_params
  | EthNewFilter filter_params
  | EthCall tx_params block_identifier "pyval option"
  | EthGetBlock block_identifier

type_synonym trace = "interaction list"

text \<open>
  The ABI codec, the hasher and the transport are external. \<open>web3\<close> holds what they
  answer; the transport's answer may depend on the requests made so far.
\<close>

record abi_codec =
  is_encodable :: "string \<Rightarrow> pyval \<Rightarrow> bool"
  encode_topic :: "string \<Rightarrow> pyval \<Rightarrow> hexstr"
  encode_fn_call :: "abi_entry \<Rightarrow> pyval list \<Rightarrow> (string \<times> pyval) list \<Rightarrow> error + hexstr"
  decode_output :: "string list \<Rightarrow> hexstr \<Rightarrow> error + pyval list"

record web3 =
  codec :: abi_codec
  keccak :: "string \<Rightarrow> hexstr"
  eth_get_logs :: "trace \<Rightarrow> filter_params \<Rightarrow> error + log_entry list"
  eth_new_filter :: "trace \<Rightarrow> filter_params \<Rightarrow> error + hexstr"
  eth_call :: "trace \<Rightarrow> tx_params \<Rightarrow> block_identifier \<Rightarrow> pyval option \<Rightarrow> error + hexstr"

section \<open>AsyncContract\<close>

text \<open>
  The sub-components are built by base-class constructors; each is recorded by the
  arguments it is built from.
\<close>

datatype contract_functions = AsyncContractFunctions "ABI option" web3 "address option"

datatype contract_events = AsyncContractEvents "ABI option" web3 "address option"

record contract_caller =
  caller_abi :: "ABI option"
  caller_w3 :: web3
  caller_address :: "address option"
  caller_transaction :: "tx_params option"
  caller_block_identifier :: block_identifier
  caller_ccip_read_enabled :: "bool option"

datatype special_function =
    FallbackFunction "ABI option" web3 "address option"
  | ReceiveFunction "ABI option" web3 "address option"

text \<open>
  A contract class and an instance of it: attribute lookup on the instance falls back to
  the class, so both are one record. The class body sets \<open>functions\<close>, \<open>caller\<close> and
  \<open>events\<close> to \<open>None\<close>; the factory (lines 128-165) replaces them on the class by
  components built without an address.
\<close>

record contract =
  w3 :: "web3 option"
  abi :: "ABI option"
  address :: "address option"
  bytecode :: "hexstr option"
  "functions" :: "contract_functions option"
  caller :: "contract_caller option"
  events :: "contract_events option"
  fallback :: "special_function option"
  receive :: "special_function option"

text \<open>Python truthiness of an optional string: \<open>None\<close> and the empty string are false.\<close>

fun truthy :: "string option \<Rightarrow> bool" where
  "truthy None = False"
| "truthy (Some s) = (s \<noteq> [])"

text \<open>
  \<open>AsyncContractCaller.__init__\<close> (lines 463-480) with its defaults
  \<open>transaction=None\<close>, \<open>block_identifier="latest"\<close>, \<open>ccip_read_enabled=None\<close>.
\<close>

definition AsyncContractCaller :: "ABI option \<Rightarrow> web3 \<Rightarrow> address option \<Rightarrow> contract_caller" where
  "AsyncContractCaller a w addr =
     \<lparr>caller_abi = a, caller_w3 = w, caller_address = addr, caller_transaction = None,
      caller_block_identifier = BlockTag ''latest'', caller_ccip_read_enabled = None\<rparr>"

text \<open>
  \<open>AsyncContract.__init__\<close> (lines 100-126). The address normalizer is external and may
  reject its input. The result is the outcome together with the instance as the
  constructor leaves it.
\<close>

definition AsyncContract_init ::
  "(address \<Rightarrow> error + address) \<Rightarrow> contract \<Rightarrow> address option \<Rightarrow> (error + unit) \<times> contract" where
  "AsyncContract_init normalize_address_no_ens self addr =
     (case w3 self of
        None \<Rightarrow> (Inl NotInitialized, self)
      | Some w \<Rightarrow>
          (case (case addr of
                   None \<Rightarrow> Inr self
                 | Some a \<Rightarrow>
                     if truthy (Some a)
                     then (case normalize_address_no_ens a of
                             Inl e \<Rightarrow> Inl e
                           | Inr a' \<Rightarrow> Inr (self\<lparr>address := Some a'\<rparr>))
                     else Inr self) of
             Inl e \<Rightarrow> (Inl e, self)
           | Inr self1 \<Rightarrow>
               if \<not> truthy (address self1) then (Inl MissingAddress, self1)
               else
                 (Inr (),
                  self1\<lparr>functions := Some (AsyncContractFunctions (abi self1) w (address self1)),
                        caller := Some (AsyncContractCaller (abi self1) w (address self1)),
                        events := Some (AsyncContractEvents (abi self1) w (address self1)),
                        fallback := Some (FallbackFunction (abi self1) w (address self1)),
                        receive := Some (ReceiveFunction (abi self1) w (address self1))\<rparr>)))"

text \<open>
  \<open>AsyncContract.constructor\<close> (lines 167-180). \<open>AsyncContractConstructor\<close> stands for the
  base-class constructor of the constructor object: it may encode and may fail.
\<close>

definition constructor ::
  "(web3 option \<Rightarrow> ABI option \<Rightarrow> hexstr \<Rightarrow> pyval list \<Rightarrow> (string \<times> pyval) list \<Rightarrow> trace \<Rightarrow> (error + 'c) \<times> trace)
   \<Rightarrow> contract \<Rightarrow> pyval list \<Rightarrow> (string \<times> pyval) list \<Rightarrow> trace \<Rightarrow> (error + 'c) \<times> trace" where
  "constructor AsyncContractConstructor cls args kwargs tr =
     (case bytecode cls of
        None \<Rightarrow> (Inl NoBytecode, tr)
      | Some code \<Rightarrow> AsyncContractConstructor (w3 cls) (abi cls) code args kwargs tr)"

section \<open>Identifier resolution\<close>

datatype function_identifier = ByName string | BySelector hexstr

fun join_types :: "string list \<Rightarrow> string" where
  "join_types [] = []"
| "join_types [t] = t"
| "join_types (t # ts) = t @ '','' @ join_types ts"

definition signature :: "abi_entry \<Rightarrow> string" where
  "signature e = entry_name e @ ''('' @ join_types (map param_type (inputs e)) @ '')''"

definition selector :: "(string \<Rightarrow> hexstr) \<Rightarrow> abi_entry \<Rightarrow> hexstr" where
  "selector hasher e = hasher (signature e)"

definition compatible :: "abi_codec \<Rightarrow> abi_entry \<Rightarrow> pyval list \<Rightarrow> bool" where
  "compatible cdc e callArgs =
     (length (inputs e) = length callArgs \<and>
      list_all2 (\<lambda>p v. is_encodable cdc (param_type p) v) (inputs e) callArgs)"

definition candidates :: "ABI \<Rightarrow> string \<Rightarrow> abi_entry list" where
  "candidates entries name = filter (\<lambda>e. entry_name e = name) entries"

definition survivors :: "abi_codec \<Rightarrow> ABI \<Rightarrow> string \<Rightarrow> pyval list \<Rightarrow> abi_entry list" where
  "survivors cdc entries name callArgs =
     filter (\<lambda>e. compatible cdc e callArgs) (candidates entries name)"

text \<open>
  Modelled from the spec: the identifier resolver (\<open>find_matching_fn_abi\<close> and the
  module-level \<open>find_functions_by_identifier\<close> / \<open>get_function_by_identifier\<close> that
  lines 182-198 delegate to) is not in the source file. Section 4.1: a concrete selector
  is matched exactly; otherwise the entries with the given name are collected, none is
  \<open>NotFound\<close>, a single one is returned unchecked, and several are filtered by arity and
  by the codec's encodability check, where exactly one survivor is required and both
  failures carry the name and the signatures of all candidates.
\<close>

definition resolve ::
  "abi_codec \<Rightarrow> (string \<Rightarrow> hexstr) \<Rightarrow> ABI \<Rightarrow> function_identifier \<Rightarrow> pyval list \<Rightarrow>
   error + abi_entry" where
  "resolve cdc hasher entries ident callArgs =
     (case ident of
        BySelector sel \<Rightarrow>
          (case filter (\<lambda>e. selector hasher e = sel) entries of
             [] \<Rightarrow> Inl (NotFound sel)
           | e # _ \<Rightarrow> Inr e)
      | ByName name \<Rightarrow>
          (case candidates entries name of
             [] \<Rightarrow> Inl (NotFound name)
           | [e] \<Rightarrow> Inr e
           | c1 # c2 # cs \<Rightarrow>
               (case survivors cdc entries name callArgs of
                  [] \<Rightarrow> Inl (NoMatchingOverload name (map signature (c1 # c2 # cs)))
                | [e] \<Rightarrow> Inr e
                | _ # _ # _ \<Rightarrow> Inl (AmbiguousOverload name (map signature (c1 # c2 # cs))))))"

section \<open>AsyncContractFunction\<close>

text \<open>
  A function proxy with the attributes the file reads and writes. \<open>args\<close>, \<open>kwargs\<close>,
  \<open>abi\<close> and the selector are \<open>None\<close> on an unbound proxy.
\<close>

record contract_function =
  fn_w3 :: web3
  fn_address :: "address option"
  fn_return_data_normalizers :: "(pyval \<Rightarrow> pyval) list"
  fn_identifier :: function_identifier
  fn_contract_abi :: ABI
  fn_abi :: "abi_entry option"
  fn_selector :: "hexstr option"
  fn_args :: "pyval list option"
  fn_kwargs :: "(string \<times> pyval) list option"

text \<open>
  Proxies are objects: the store holds them in allocation order and a reference is an
  index into it. \<open>copy.copy\<close> allocates a new object with the same attribute values.
\<close>

type_synonym ref = nat
type_synonym heap = "contract_function list"

definition copy_copy :: "heap \<Rightarrow> ref \<Rightarrow> ref \<times> heap" where
  "copy_copy h r = (length h, h @ [h ! r])"

definition setattr :: "heap \<Rightarrow> ref \<Rightarrow> (contract_function \<Rightarrow> contract_function) \<Rightarrow> heap" where
  "setattr h r f = h[r := f (h ! r)]"

text \<open>
  The body of \<open>AsyncContractFunction.__call__\<close> (lines 233-244) over the two argument
  packs, with its \<open>is None\<close> tests. \<open>_set_function_info\<close> is a base-class method that
  works on its receiver; it may raise.
\<close>

definition call_body ::
  "(contract_function \<Rightarrow> error + contract_function) \<Rightarrow> heap \<Rightarrow> ref \<Rightarrow>
   pyval list option \<Rightarrow> (string \<times> pyval) list option \<Rightarrow> (error + ref) \<times> heap" where
  "call_body set_function_info h self args kwargs =
     (let (clone, h1) = copy_copy h self;
          h2 = (case args of
                  None \<Rightarrow> setattr h1 clone (\<lambda>obj. obj\<lparr>fn_args := Some []\<rparr>)
                | Some a \<Rightarrow> setattr h1 clone (\<lambda>obj. obj\<lparr>fn_args := Some a\<rparr>));
          h3 = (case kwargs of
                  None \<Rightarrow> setattr h2 clone (\<lambda>obj. obj\<lparr>fn_kwargs := Some []\<rparr>)
                | Some k \<Rightarrow> setattr h2 clone (\<lambda>obj. obj\<lparr>fn_kwargs := Some k\<rparr>))
      in case set_function_info (h3 ! clone) of
           Inl e \<Rightarrow> (Inl e, h3)
         | Inr obj \<Rightarrow> (Inr clone, h3[clone := obj]))"

text \<open>
  \<open>__call__(self, *args, **kwargs)\<close>: Python binds \<open>args\<close> to a tuple and \<open>kwargs\<close> to a
  dict at every call, so the body always receives both packs.
\<close>

definition dunder_call ::
  "(contract_function \<Rightarrow> error + contract_function) \<Rightarrow> heap \<Rightarrow> ref \<Rightarrow>
   pyval list \<Rightarrow> (string \<times> pyval) list \<Rightarrow> (error + ref) \<times> heap" where
  "dunder_call set_function_info h self args kwargs =
     call_body set_function_info h self (Some args) (Some kwargs)"

text \<open>
  Modelled from the spec: \<open>BaseContractFunction._set_function_info\<close> is not in the source
  file. Sections 3 and 4.2: binding re-runs resolution and the bound state adds the
  resolved ABI entry and the resolved selector. The spec gives the resolver one argument
  list and does not say where keyword arguments go in it: here their values follow the
  positional arguments, in the order of the call, and their names are not matched
  against parameter names. Below, the method is only run on proxies bound with positional
  arguments.
\<close>

definition bound_arguments :: "contract_function \<Rightarrow> pyval list" where
  "bound_arguments self =
     (case fn_args self of None \<Rightarrow> [] | Some a \<Rightarrow> a) @
     (case fn_kwargs self of None \<Rightarrow> [] | Some k \<Rightarrow> map snd k)"

definition set_function_info :: "contract_function \<Rightarrow> error + contract_function" where
  "set_function_info self =
     (case resolve (codec (fn_w3 self)) (keccak (fn_w3 self)) (fn_contract_abi self)
             (fn_identifier self) (bound_arguments self) of
        Inl e \<Rightarrow> Inl e
      | Inr entry \<Rightarrow>
          Inr (self\<lparr>fn_abi := Some entry,
                    fn_selector := Some (selector (keccak (fn_w3 self)) entry)\<rparr>))"

text \<open>
  \<open>*self.args\<close> and \<open>**self.kwargs\<close> in a call: unpacking \<open>None\<close> is a \<open>TypeError\<close>,
  raised while the arguments are evaluated, before the callee is entered; the positional
  pack is unpacked first. At these call sites positional arguments precede \<open>*self.args\<close>,
  which gives the first message; the message for the keyword pack starts with the
  callee's name, which depends on the interpreter and is left out.
\<close>

definition star_args :: "pyval list option \<Rightarrow> error + pyval list" where
  "star_args a = (case a of
      None \<Rightarrow> Inl (TypeError ''Value after * must be an iterable, not NoneType'')
    | Some xs \<Rightarrow> Inr xs)"

definition star_kwargs :: "(string \<times> pyval) list option \<Rightarrow> error + (string \<times> pyval) list" where
  "star_kwargs k = (case k of
      None \<Rightarrow> Inl (TypeError ''argument after ** must be a mapping, not NoneType'')
    | Some kv \<Rightarrow> Inr kv)"

text \<open>
  \<open>AsyncContractFunction.call\<close> (lines 246-294). An omitted \<open>block_identifier\<close> is
  \<open>None\<close> here and takes the default \<open>"latest"\<close>. The three callees are not in the file:
  \<open>_get_call_txparams\<close>, the block-identifier resolver, and the call helper, whose
  twelve arguments are in the order of the source.
\<close>

definition call ::
  "(contract_function \<Rightarrow> tx_params option \<Rightarrow> error + tx_params) \<Rightarrow>
   (web3 \<Rightarrow> block_identifier \<Rightarrow> trace \<Rightarrow> (error + block_identifier) \<times> trace) \<Rightarrow>
   (web3 \<Rightarrow> address option \<Rightarrow> (pyval \<Rightarrow> pyval) list \<Rightarrow> function_identifier \<Rightarrow> tx_params \<Rightarrow>
    block_identifier \<Rightarrow> ABI \<Rightarrow> abi_entry option \<Rightarrow> pyval option \<Rightarrow> bool option \<Rightarrow>
    pyval list \<Rightarrow> (string \<times> pyval) list \<Rightarrow> trace \<Rightarrow> (error + 'r) \<times> trace) \<Rightarrow>
   contract_function \<Rightarrow> tx_params option \<Rightarrow> block_identifier option \<Rightarrow> pyval option \<Rightarrow>
   bool option \<Rightarrow> trace \<Rightarrow> (error + 'r) \<times> trace" where
  "call get_call_txparams async_parse_block_identifier async_call_contract_function
        self transaction block_identifier state_override ccip_read_enabled tr =
     (case get_call_txparams self transaction of
        Inl e \<Rightarrow> (Inl e, tr)
      | Inr call_transaction \<Rightarrow>
          (case async_parse_block_identifier (fn_w3 self)
                  (case block_identifier of None \<Rightarrow> BlockTag ''latest'' | Some b \<Rightarrow> b) tr of
             (Inl e, tr1) \<Rightarrow> (Inl e, tr1)
           | (Inr block_id, tr1) \<Rightarrow>
               (case star_args (fn_args self) of
                  Inl e \<Rightarrow> (Inl e, tr1)
                | Inr a \<Rightarrow>
                    (case star_kwargs (fn_kwargs self) of
                       Inl e \<Rightarrow> (Inl e, tr1)
                     | Inr k \<Rightarrow>
                         async_call_contract_function (fn_w3 self) (fn_address self)
                           (fn_return_data_normalizers self) (fn_identifier self)
                           call_transaction block_id (fn_contract_abi self) (fn_abi self)
                           state_override ccip_read_enabled a k tr1))))"

text \<open>
  \<open>transact\<close> (lines 296-309), \<open>estimate_gas\<close> (lines 311-327) and \<open>build_transaction\<close>
  (lines 329-342): the transaction is prepared by a base-class method, then the helper is
  called with the proxy's attributes.
\<close>

definition transact ::
  "(contract_function \<Rightarrow> tx_params option \<Rightarrow> error + tx_params) \<Rightarrow>
   (address option \<Rightarrow> web3 \<Rightarrow> function_identifier \<Rightarrow> tx_params \<Rightarrow> ABI \<Rightarrow> abi_entry option \<Rightarrow>
    pyval list \<Rightarrow> (string \<times> pyval) list \<Rightarrow> trace \<Rightarrow> (error + 'r) \<times> trace) \<Rightarrow>
   contract_function \<Rightarrow> tx_params option \<Rightarrow> trace \<Rightarrow> (error + 'r) \<times> trace" where
  "transact prepare async_transact_with_contract_function self transaction tr =
     (case prepare self transaction of
        Inl e \<Rightarrow> (Inl e, tr)
      | Inr setup_transaction \<Rightarrow>
          (case star_args (fn_args self) of
             Inl e \<Rightarrow> (Inl e, tr)
           | Inr a \<Rightarrow>
               (case star_kwargs (fn_kwargs self) of
                  Inl e \<Rightarrow> (Inl e, tr)
                | Inr k \<Rightarrow>
                    async_transact_with_contract_function (fn_address self) (fn_w3 self)
                      (fn_identifier self) setup_transaction (fn_contract_abi self)
                      (fn_abi self) a k tr)))"

definition estimate_gas ::
  "(contract_function \<Rightarrow> tx_params option \<Rightarrow> error + tx_params) \<Rightarrow>
   (address option \<Rightarrow> web3 \<Rightarrow> function_identifier \<Rightarrow> tx_params \<Rightarrow> ABI \<Rightarrow> abi_entry option \<Rightarrow>
    block_identifier option \<Rightarrow> pyval list \<Rightarrow> (string \<times> pyval) list \<Rightarrow> trace \<Rightarrow>
    (error + 'r) \<times> trace) \<Rightarrow>
   contract_function \<Rightarrow> tx_params option \<Rightarrow> block_identifier option \<Rightarrow> trace \<Rightarrow>
   (error + 'r) \<times> trace" where
  "estimate_gas prepare async_estimate_gas_for_function self transaction block_identifier tr =
     (case prepare self transaction of
        Inl e \<Rightarrow> (Inl e, tr)
      | Inr setup_transaction \<Rightarrow>
          (case star_args (fn_args self) of
             Inl e \<Rightarrow> (Inl e, tr)
           | Inr a \<Rightarrow>
               (case star_kwargs (fn_kwargs self) of
                  Inl e \<Rightarrow> (Inl e, tr)
                | Inr k \<Rightarrow>
                    async_estimate_gas_for_function (fn_address self) (fn_w3 self)
                      (fn_identifier self) setup_transaction (fn_contract_abi self)
                      (fn_abi self) block_identifier a k tr)))"

definition build_transaction ::
  "(contract_function \<Rightarrow> tx_params option \<Rightarrow> error + tx_params) \<Rightarrow>
   (address option \<Rightarrow> web3 \<Rightarrow> function_identifier \<Rightarrow> tx_params \<Rightarrow> ABI \<Rightarrow> abi_entry option \<Rightarrow>
    pyval list \<Rightarrow> (string \<times> pyval) list \<Rightarrow> trace \<Rightarrow> (error + 'r) \<times> trace) \<Rightarrow>
   contract_function \<Rightarrow> tx_params option \<Rightarrow> trace \<Rightarrow> (error + 'r) \<times> trace" where
  "build_transaction prepare async_build_transaction_for_function self transaction tr =
     (case prepare self transaction of
        Inl e \<Rightarrow> (Inl e, tr)
      | Inr built_transaction \<Rightarrow>
          (case star_args (fn_args self) of
             Inl e \<Rightarrow> (Inl e, tr)
           | Inr a \<Rightarrow>
               (case star_kwargs (fn_kwargs self) of
                  Inl e \<Rightarrow> (Inl e, tr)
                | Inr k \<Rightarrow>
                    async_build_transaction_for_function (fn_address self) (fn_w3 self)
                      (fn_identifier self) built_transaction (fn_contract_abi self)
                      (fn_abi self) a k tr)))"

text \<open>
  Modelled from the spec: \<open>async_call_contract_function\<close> is not in the source file.
  Sections 2, 3 and 4.2: the call data is encoded by the codec and added to the
  transaction as \<open>data\<close>, the read-only RPC method is invoked with the resolved block and
  the state override passed through unmodified, and the payload is decoded per the output
  types of the resolved entry: a single output is returned as it is, several as a tuple,
  by name when all outputs are named. The resolved entry is the one the proxy hands
  over; the resolver is invoked when the proxy hands over none.
\<close>

definition pack_outputs :: "abi_param list \<Rightarrow> pyval list \<Rightarrow> pyval" where
  "pack_outputs outs vals =
     (case vals of
        [v] \<Rightarrow> v
      | _ \<Rightarrow>
          if outs \<noteq> [] \<and> list_all (\<lambda>p. param_name p \<noteq> []) outs \<and> length outs = length vals
          then PyDict (zip (map param_name outs) vals)
          else PyTuple vals)"

definition async_call_contract_function ::
  "web3 \<Rightarrow> address option \<Rightarrow> (pyval \<Rightarrow> pyval) list \<Rightarrow> function_identifier \<Rightarrow> tx_params \<Rightarrow>
   block_identifier \<Rightarrow> ABI \<Rightarrow> abi_entry option \<Rightarrow> pyval option \<Rightarrow> bool option \<Rightarrow>
   pyval list \<Rightarrow> (string \<times> pyval) list \<Rightarrow> trace \<Rightarrow> (error + pyval) \<times> trace" where
  "async_call_contract_function w addr normalizers ident transaction block_id contract_abi
     entry_opt state_override ccip_read_enabled args kwargs tr =
     (case (case entry_opt of
              Some e \<Rightarrow> Inr e
            | None \<Rightarrow> resolve (codec w) (keccak w) contract_abi ident (args @ map snd kwargs)) of
        Inl e \<Rightarrow> (Inl e, tr)
      | Inr entry \<Rightarrow>
          (case encode_fn_call (codec w) entry args kwargs of
             Inl e \<Rightarrow> (Inl e, tr)
           | Inr data \<Rightarrow>
               (let tx = transaction @ [(''data'', PyStr data)];
                    tr1 = tr @ [EthCall tx block_id state_override]
                in case eth_call w tr tx block_id state_override of
                     Inl e \<Rightarrow> (Inl e, tr1)
                   | Inr raw \<Rightarrow>
                       (case decode_output (codec w) (map param_type (outputs entry)) raw of
                          Inl e \<Rightarrow> (Inl e, tr1)
                        | Inr vals \<Rightarrow> (Inr (pack_outputs (outputs entry) vals), tr1)))))"

section \<open>AsyncContractEvent\<close>

record contract_event =
  ev_w3 :: web3
  ev_address :: "address option"
  ev_name :: string
  ev_contract_abi :: ABI

text \<open>
  The generator expression inside \<open>tuple(...)\<close> (lines 417-419): the entries are decoded
  in order and the first exception ends the evaluation.
\<close>

fun traverse :: "('a \<Rightarrow> error + 'b) \<Rightarrow> 'a list \<Rightarrow> error + 'b list" where
  "traverse f [] = Inr []"
| "traverse f (x # xs) =
     (case f x of
        Inl e \<Rightarrow> Inl e
      | Inr y \<Rightarrow> (case traverse f xs of Inl e \<Rightarrow> Inl e | Inr ys \<Rightarrow> Inr (y # ys)))"

text \<open>
  \<open>AsyncContractEvent.get_logs\<close> (lines 347-419). Not in the file: the log decoder
  \<open>get_event_data\<close>, and the base-class methods \<open>_get_event_abi\<close> and
  \<open>_get_event_filter_params\<close>. The filter parameters are built before the request is
  made, as the argument of \<open>self.w3.eth.get_logs\<close>.
\<close>

definition get_logs ::
  "(abi_codec \<Rightarrow> abi_entry \<Rightarrow> log_entry \<Rightarrow> error + 'd) \<Rightarrow>
   (contract_event \<Rightarrow> error + abi_entry) \<Rightarrow>
   (contract_event \<Rightarrow> abi_entry \<Rightarrow> (string \<times> pyval) list option \<Rightarrow> block_identifier option \<Rightarrow>
    block_identifier option \<Rightarrow> hexstr option \<Rightarrow> error + filter_params) \<Rightarrow>
   contract_event \<Rightarrow> (string \<times> pyval) list option \<Rightarrow> block_identifier option \<Rightarrow>
   block_identifier option \<Rightarrow> hexstr option \<Rightarrow> trace \<Rightarrow> (error + 'd list) \<times> trace" where
  "get_logs get_event_data get_event_abi get_event_filter_params
        self argument_filters fromBlock toBlock block_hash tr =
     (case get_event_abi self of
        Inl e \<Rightarrow> (Inl e, tr)
      | Inr abi_e \<Rightarrow>
          (case get_event_filter_params self abi_e argument_filters fromBlock toBlock block_hash of
             Inl e \<Rightarrow> (Inl e, tr)
           | Inr params \<Rightarrow>
               (case eth_get_logs (ev_w3 self) tr params of
                  Inl e \<Rightarrow> (Inl e, tr @ [EthGetLogs params])
                | Inr logs \<Rightarrow>
                    (traverse (get_event_data (codec (ev_w3 self)) abi_e) logs,
                     tr @ [EthGetLogs params]))))"

text \<open>
  Modelled from the spec: \<open>BaseContractEvent._get_event_filter_params\<close> and the topic
  construction it uses are not in the source file. Section 4.3: \<open>blockHash\<close> together
  with \<open>fromBlock\<close> or \<open>toBlock\<close> is an error; topic 0 is the hashed event signature; every
  indexed parameter gives one topic, the encoded value (or values) supplied for its name,
  and the wildcard when none is supplied; other parameters give no topic. The message is
  the one of the docstring, lines 404-405.
\<close>

definition argument_topic :: "abi_codec \<Rightarrow> (string \<times> pyval) list \<Rightarrow> abi_param \<Rightarrow> topic" where
  "argument_topic cdc filters p =
     (case map_of filters (param_name p) of
        None \<Rightarrow> AnyTopic
      | Some PyNone \<Rightarrow> AnyTopic
      | Some (PyList vs) \<Rightarrow> OneOf (map (encode_topic cdc (param_type p)) vs)
      | Some v \<Rightarrow> Topic (encode_topic cdc (param_type p) v))"

definition construct_event_topics ::
  "web3 \<Rightarrow> abi_entry \<Rightarrow> (string \<times> pyval) list \<Rightarrow> topic list" where
  "construct_event_topics w abi_e filters =
     Topic (keccak w (signature abi_e)) #
     map (argument_topic (codec w) filters) (filter indexed (inputs abi_e))"

definition get_event_filter_params ::
  "contract_event \<Rightarrow> abi_entry \<Rightarrow> (string \<times> pyval) list option \<Rightarrow> block_identifier option \<Rightarrow>
   block_identifier option \<Rightarrow> hexstr option \<Rightarrow> error + filter_params" where
  "get_event_filter_params self abi_e argument_filters fromBlock toBlock blockHash =
     (if blockHash \<noteq> None \<and> (fromBlock \<noteq> None \<or> toBlock \<noteq> None)
      then Inl (InvalidFilterParams
                  ''blockHash cannot be set at the same time as fromBlock or toBlock'')
      else Inr \<lparr>fp_address = ev_address self,
                fp_topics = construct_event_topics (ev_w3 self) abi_e
                              (case argument_filters of None \<Rightarrow> [] | Some fs \<Rightarrow> fs),
                fp_fromBlock = fromBlock,
                fp_toBlock = toBlock,
                fp_blockHash = blockHash\<rparr>)"

text \<open>
  The filter builder and the live filter, by the attributes the file sets and reads.
\<close>

record 'd filter_builder =
  fb_event_abi :: abi_entry
  fb_codec :: abi_codec
  fb_formatter :: "(log_entry \<Rightarrow> error + 'd) option"
  fb_address :: "address option"
  fb_fromBlock :: "block_identifier option"
  fb_toBlock :: "block_identifier option"
  fb_topics :: "topic list"

record 'd log_filter =
  filter_id :: hexstr
  log_entry_formatter :: "(log_entry \<Rightarrow> error + 'd) option"
  builder :: "'d filter_builder option"

definition AsyncEventFilterBuilder ::
  "abi_entry \<Rightarrow> abi_codec \<Rightarrow> (log_entry \<Rightarrow> error + 'd) option \<Rightarrow> 'd filter_builder" where
  "AsyncEventFilterBuilder abi_e cdc formatter =
     \<lparr>fb_event_abi = abi_e, fb_codec = cdc, fb_formatter = formatter, fb_address = None,
      fb_fromBlock = None, fb_toBlock = None, fb_topics = []\<rparr>"

text \<open>
  \<open>AsyncContractEvent.create_filter\<close> (lines 421-449). An omitted \<open>toBlock\<close> is \<open>None\<close>
  here and takes the default \<open>"latest"\<close>. Not in the file: \<open>_set_up_filter_builder\<close>, which
  fills the builder and may raise, and the builder's \<open>deploy\<close>.
\<close>

definition create_filter ::
  "(abi_codec \<Rightarrow> abi_entry \<Rightarrow> log_entry \<Rightarrow> error + 'd) \<Rightarrow>
   (contract_event \<Rightarrow> error + abi_entry) \<Rightarrow>
   (contract_event \<Rightarrow> (string \<times> pyval) list option \<Rightarrow> block_identifier option \<Rightarrow>
    block_identifier \<Rightarrow> address option \<Rightarrow> topic list option \<Rightarrow> 'd filter_builder \<Rightarrow>
    error + 'd filter_builder) \<Rightarrow>
   ('d filter_builder \<Rightarrow> web3 \<Rightarrow> trace \<Rightarrow> (error + 'd log_filter) \<times> trace) \<Rightarrow>
   contract_event \<Rightarrow> (string \<times> pyval) list option \<Rightarrow> block_identifier option \<Rightarrow>
   block_identifier option \<Rightarrow> address option \<Rightarrow> topic list option \<Rightarrow> trace \<Rightarrow>
   (error + 'd log_filter) \<times> trace" where
  "create_filter get_event_data get_event_abi set_up_filter_builder deploy
        self argument_filters fromBlock toBlock addr topics tr =
     (case get_event_abi self of
        Inl e \<Rightarrow> (Inl e, tr)
      | Inr abi_e \<Rightarrow>
          (case set_up_filter_builder self argument_filters fromBlock
                  (case toBlock of None \<Rightarrow> BlockTag ''latest'' | Some b \<Rightarrow> b) addr topics
                  (AsyncEventFilterBuilder abi_e (codec (ev_w3 self)) None) of
             Inl e \<Rightarrow> (Inl e, tr)
           | Inr filter_builder \<Rightarrow>
               (case deploy filter_builder (ev_w3 self) tr of
                  (Inl e, tr1) \<Rightarrow> (Inl e, tr1)
                | (Inr log_filter, tr1) \<Rightarrow>
                    (case get_event_abi self of
                       Inl e \<Rightarrow> (Inl e, tr1)
                     | Inr abi_e2 \<Rightarrow>
                         (Inr (log_filter
                                \<lparr>log_entry_formatter :=
                                   Some (get_event_data (codec (ev_w3 self)) abi_e2),
                                 builder := Some filter_builder\<rparr>),
                          tr1)))))"

text \<open>
  Modelled from the spec: \<open>AsyncEventFilterBuilder.deploy\<close> is not in the source file.
  Sections 3 and 4.3: the built parameters are registered through the node's
  filter-installation RPC method, and the live filter owns the filter id and the stored
  formatter.
\<close>

definition builder_filter_params :: "'d filter_builder \<Rightarrow> filter_params" where
  "builder_filter_params b =
     \<lparr>fp_address = fb_address b, fp_topics = fb_topics b, fp_fromBlock = fb_fromBlock b,
      fp_toBlock = fb_toBlock b, fp_blockHash = None\<rparr>"

definition deploy :: "'d filter_builder \<Rightarrow> web3 \<Rightarrow> trace \<Rightarrow> (error + 'd log_filter) \<times> trace" where
  "deploy b w tr =
     (case eth_new_filter w tr (builder_filter_params b) of
        Inl e \<Rightarrow> (Inl e, tr @ [EthNewFilter (builder_filter_params b)])
      | Inr fid \<Rightarrow>
          (Inr \<lparr>filter_id = fid, log_entry_formatter = fb_formatter b, builder = None\<rparr>,
           tr @ [EthNewFilter (builder_filter_params b)]))"

section \<open>A node and a contract to evaluate on\<close>

definition addr0 :: string where
  "addr0 = ''0xF2E246BB76DF876Cef8b38ae84130F4F55De395b''"

definition demo_log :: log_entry where
  "demo_log =
     \<lparr>log_address = addr0, log_topics = [''0x#Transfer(address,address,uint256)'', ''0xA'', ''0xB''],
      log_data = ''0x64'', log_blockNumber = 105, log_transactionHash = ''0xbeef'',
      log_logIndex = 0\<rparr>"

definition demo_codec :: abi_codec where
  "demo_codec =
     \<lparr>is_encodable = (\<lambda>ty v. case v of
          PyInt n \<Rightarrow> ty = ''uint256'' \<and> 0 \<le> n
        | PyStr s \<Rightarrow> ty = ''address'' \<or> ty = ''string''
        | PyBytes b \<Rightarrow> ty = ''bytes''
        | PyBool b \<Rightarrow> ty = ''bool''
        | _ \<Rightarrow> False),
      encode_topic = (\<lambda>ty v. case v of PyStr s \<Rightarrow> ''0x'' @ s | _ \<Rightarrow> ''0x''),
      encode_fn_call = (\<lambda>e a k. Inr (''0x'' @ signature e)),
      decode_output = (\<lambda>tys raw.
          Inr (map (\<lambda>ty. if ty = ''bool'' then PyBool (raw = ''0x01'') else PyStr raw) tys))\<rparr>"

definition demo_w3 :: web3 where
  "demo_w3 =
     \<lparr>codec = demo_codec,
      keccak = (\<lambda>s. ''0x#'' @ s),
      eth_get_logs = (\<lambda>tr fp. Inr [demo_log]),
      eth_new_filter = (\<lambda>tr fp. Inr ''0x1''),
      eth_call = (\<lambda>tr tx b so. Inr ''0x01'')\<rparr>"

definition demo_class :: contract where
  "demo_class =
     \<lparr>w3 = Some demo_w3, abi = Some [], address = None, bytecode = Some ''0x6080'',
      functions = None, caller = None, events = None, fallback = None, receive = None\<rparr>"

text \<open>
  The overloads of the scenario in section 8 of the specification, and a name with two
  overloads that one string argument fits both.
\<close>

definition transfer2 :: abi_entry where
  "transfer2 =
     \<lparr>entry_kind = FunctionEntry, entry_name = ''transfer'',
      inputs = [\<lparr>param_name = ''to'', param_type = ''address'', indexed = False\<rparr>,
                \<lparr>param_name = ''value'', param_type = ''uint256'', indexed = False\<rparr>],
      outputs = [\<lparr>param_name = [], param_type = ''bool'', indexed = False\<rparr>]\<rparr>"

definition transfer3 :: abi_entry where
  "transfer3 =
     \<lparr>entry_kind = FunctionEntry, entry_name = ''transfer'',
      inputs = [\<lparr>param_name = ''to'', param_type = ''address'', indexed = False\<rparr>,
                \<lparr>param_name = ''value'', param_type = ''uint256'', indexed = False\<rparr>,
                \<lparr>param_name = ''data'', param_type = ''bytes'', indexed = False\<rparr>],
      outputs = [\<lparr>param_name = [], param_type = ''bool'', indexed = False\<rparr>]\<rparr>"

definition register_address :: abi_entry where
  "register_address =
     \<lparr>entry_kind = FunctionEntry, entry_name = ''register'',
      inputs = [\<lparr>param_name = ''who'', param_type = ''address'', indexed = False\<rparr>],
      outputs = []\<rparr>"

definition register_string :: abi_entry where
  "register_string =
     \<lparr>entry_kind = FunctionEntry, entry_name = ''register'',
      inputs = [\<lparr>param_name = ''label'', param_type = ''string'', indexed = False\<rparr>],
      outputs = []\<rparr>"

definition demo_abi :: ABI where
  "demo_abi = [transfer2, transfer3, register_address, register_string]"

definition demo_fn :: contract_function where
  "demo_fn =
     \<lparr>fn_w3 = demo_w3, fn_address = Some addr0, fn_return_data_normalizers = [],
      fn_identifier = ByName ''transfer'', fn_contract_abi = demo_abi, fn_abi = None,
      fn_selector = None, fn_args = None, fn_kwargs = None\<rparr>"

lemmas demo_defs =
  demo_abi_def transfer2_def transfer3_def register_address_def register_string_def
  demo_codec_def addr0_def

text \<open>
  The event of the scenario in section 8 of the specification, with stand-ins for the
  absent \<open>_get_event_abi\<close>, \<open>get_event_data\<close> and \<open>_set_up_filter_builder\<close>.
\<close>

definition transfer_event :: abi_entry where
  "transfer_event =
     \<lparr>entry_kind = EventEntry, entry_name = ''Transfer'',
      inputs = [\<lparr>param_name = ''from'', param_type = ''address'', indexed = True\<rparr>,
                \<lparr>param_name = ''to'', param_type = ''address'', indexed = True\<rparr>,
                \<lparr>param_name = ''value'', param_type = ''uint256'', indexed = False\<rparr>],
      outputs = []\<rparr>"

definition demo_event :: contract_event where
  "demo_event =
     \<lparr>ev_w3 = demo_w3, ev_address = Some addr0, ev_name = ''Transfer'',
      ev_contract_abi = [transfer_event]\<rparr>"

definition demo_get_event_abi :: "contract_event \<Rightarrow> error + abi_entry" where
  "demo_get_event_abi ev =
     (case filter (\<lambda>e. entry_kind e = EventEntry \<and> entry_name e = ev_name ev) (ev_contract_abi ev) of
        [e] \<Rightarrow> Inr e
      | _ \<Rightarrow> Inl (NotFound (ev_name ev)))"

definition demo_get_event_data :: "abi_codec \<Rightarrow> abi_entry \<Rightarrow> log_entry \<Rightarrow> error + event_data" where
  "demo_get_event_data cdc abi_e entry =
     (if length (log_topics entry) = Suc (length (filter indexed (inputs abi_e)))
      then Inr \<lparr>ed_event = entry_name abi_e,
                ed_args = zip (map param_name (filter indexed (inputs abi_e)))
                              (map PyStr (tl (log_topics entry))) @
                          zip (map param_name (filter (\<lambda>p. \<not> indexed p) (inputs abi_e)))
                              [PyStr (log_data entry)],
                ed_log = entry\<rparr>
      else Inl (LogDecodeError (entry_name abi_e)))"

definition demo_set_up_filter_builder ::
  "contract_event \<Rightarrow> (string \<times> pyval) list option \<Rightarrow> block_identifier option \<Rightarrow>
   block_identifier \<Rightarrow> address option \<Rightarrow> topic list option \<Rightarrow> 'd filter_builder \<Rightarrow>
   error + 'd filter_builder" where
  "demo_set_up_filter_builder self af fromBlock toBlock addr topics b =
     Inr (b\<lparr>fb_address := (case addr of None \<Rightarrow> ev_address self | Some a \<Rightarrow> Some a),
            fb_fromBlock := fromBlock, fb_toBlock := Some toBlock,
            fb_topics := construct_event_topics (ev_w3 self) (fb_event_abi b)
                           (case af of None \<Rightarrow> [] | Some fs \<Rightarrow> fs)\<rparr>)"

definition demo_params :: filter_params where
  "demo_params =
     \<lparr>fp_address = Some addr0,
      fp_topics = [Topic ''0x#Transfer(address,address,uint256)'', AnyTopic, AnyTopic],
      fp_fromBlock = Some (BlockNumber 100), fp_toBlock = Some (BlockNumber 110),
      fp_blockHash = None\<rparr>"

definition demo_decoded :: event_data where
  "demo_decoded =
     \<lparr>ed_event = ''Transfer'',
      ed_args = [(''from'', PyStr ''0xA''), (''to'', PyStr ''0xB''), (''value'', PyStr ''0x64'')],
      ed_log = demo_log\<rparr>"

text \<open>
  A bound proxy, and stand-ins for the absent transaction preparation and
  block-identifier resolver.
\<close>

definition bound_fn :: contract_function where
  "bound_fn =
     demo_fn\<lparr>fn_abi := Some transfer2,
             fn_selector := Some (selector (keccak demo_w3) transfer2),
             fn_args := Some [PyStr addr0, PyInt 5], fn_kwargs := Some []\<rparr>"

definition demo_get_call_txparams :: "contract_function \<Rightarrow> tx_params option \<Rightarrow> error + tx_params" where
  "demo_get_call_txparams self transaction =
     Inr ((case fn_address self of None \<Rightarrow> [] | Some a \<Rightarrow> [(''to'', PyStr a)]) @
          (case transaction of None \<Rightarrow> [] | Some t \<Rightarrow> t))"

definition demo_parse_block_identifier ::
  "web3 \<Rightarrow> block_identifier \<Rightarrow> trace \<Rightarrow> (error + block_identifier) \<times> trace" where
  "demo_parse_block_identifier w b tr =
     (if b = BlockTag ''latest'' then (Inr (BlockNumber 17), tr @ [EthGetBlock b])
      else (Inr b, tr))"

section \<open>Construction\<close>

text \<open>
  C8. The constructor operation on a class whose bytecode is \<open>None\<close> raises the
  no-bytecode \<open>ValueError\<close> with the request list untouched and without entering the
  constructor object's own constructor, whatever that one does; with bytecode \<open>code\<close> it
  is the constructor object built from the class's \<open>w3\<close>, \<open>abi\<close>, \<open>code\<close> and the
  supplied arguments.
\<close>

theorem constructor_requires_bytecode:
  "(bytecode cls = None \<longrightarrow> constructor mk cls args kwargs tr = (Inl NoBytecode, tr)) \<and>
   (\<forall>code. bytecode cls = Some code \<longrightarrow>
      constructor mk cls args kwargs tr = mk (w3 cls) (abi cls) code args kwargs tr)"
  by (simp add: constructor_def)

theorem constructor_requires_bytecode_witness:
  "bytecode (demo_class\<lparr>bytecode := None\<rparr>) = None \<and>
   constructor (\<lambda>w a code args kwargs tr. (Inr (code, args, kwargs), tr @ [EthGetBlock (BlockTag ''latest'')]))
     (demo_class\<lparr>bytecode := None\<rparr>) [PyInt 1] [] [] = (Inl NoBytecode, []) \<and>
   bytecode demo_class = Some ''0x6080'' \<and>
   constructor (\<lambda>w a code args kwargs tr. (Inr (code, args, kwargs), tr @ [EthGetBlock (BlockTag ''latest'')]))
     demo_class [PyInt 1] [] [] =
     (Inr (''0x6080'', [PyInt 1], []), [EthGetBlock (BlockTag ''latest'')])"
proof -
  let ?mk = "\<lambda>(w :: web3 option) (a :: ABI option) (code :: hexstr) (args :: pyval list)
               (kwargs :: (string \<times> pyval) list) (tr :: trace).
               (Inr (code, args, kwargs) :: error + (hexstr \<times> pyval list \<times> (string \<times> pyval) list),
                tr @ [EthGetBlock (BlockTag ''latest'')])"
  have none: "bytecode (demo_class\<lparr>bytecode := None\<rparr>) = None"
    by simp
  have some: "bytecode demo_class = Some ''0x6080''"
    by (simp add: demo_class_def)
  from constructor_requires_bytecode [of "demo_class\<lparr>bytecode := None\<rparr>" ?mk "[PyInt 1]" "[]" "[]"] none
  have a: "constructor ?mk (demo_class\<lparr>bytecode := None\<rparr>) [PyInt 1] [] [] = (Inl NoBytecode, [])"
    by blast
  from constructor_requires_bytecode [of demo_class ?mk "[PyInt 1]" "[]" "[]"] some
  have b: "constructor ?mk demo_class [PyInt 1] [] [] = ?mk (w3 demo_class) (abi demo_class) ''0x6080'' [PyInt 1] [] []"
    by blast
  show ?thesis using none some a b by simp
qed

text \<open>
  C9. Instantiating a contract whose \<open>w3\<close> is \<open>None\<close> raises the not-initialized
  \<open>AttributeError\<close>. With a \<open>w3\<close>, instantiating with no address (none supplied, or an
  empty one, and none bound on the class) raises the address-required \<open>TypeError\<close>. In
  both cases the instance is left exactly as it was: no attribute is assigned, so no
  \<open>functions\<close>, \<open>caller\<close> or \<open>events\<close> component is created.
\<close>

theorem init_requires_w3_and_address:
  "(w3 self = None \<longrightarrow>
      AsyncContract_init norm self addr = (Inl NotInitialized, self)) \<and>
   (w3 self \<noteq> None \<and> \<not> truthy addr \<and> \<not> truthy (address self) \<longrightarrow>
      AsyncContract_init norm self addr = (Inl MissingAddress, self))"
  by (cases addr) (auto simp: AsyncContract_init_def split: option.splits)

theorem init_requires_w3_and_address_witness:
  "w3 (demo_class\<lparr>w3 := None\<rparr>) = None \<and>
   AsyncContract_init Inr (demo_class\<lparr>w3 := None\<rparr>) (Some ''0xF2E246BB76DF876Cef8b38ae84130F4F55De395b'') =
     (Inl NotInitialized, demo_class\<lparr>w3 := None\<rparr>) \<and>
   w3 demo_class \<noteq> None \<and> \<not> truthy None \<and> \<not> truthy (address demo_class) \<and>
   AsyncContract_init Inr demo_class None = (Inl MissingAddress, demo_class)"
proof -
  have h1: "w3 (demo_class\<lparr>w3 := None\<rparr>) = None"
    by simp
  have h2: "w3 demo_class \<noteq> None \<and> \<not> truthy None \<and> \<not> truthy (address demo_class)"
    by (simp add: demo_class_def)
  from init_requires_w3_and_address [of "demo_class\<lparr>w3 := None\<rparr>" Inr "Some ''0xF2E246BB76DF876Cef8b38ae84130F4F55De395b''"] h1
  have a: "AsyncContract_init Inr (demo_class\<lparr>w3 := None\<rparr>) (Some ''0xF2E246BB76DF876Cef8b38ae84130F4F55De395b'') =
     (Inl NotInitialized, demo_class\<lparr>w3 := None\<rparr>)"
    by blast
  from init_requires_w3_and_address [of demo_class Inr None] h2
  have b: "AsyncContract_init Inr demo_class None = (Inl MissingAddress, demo_class)"
    by blast
  show ?thesis using h1 h2 a b by simp
qed

section \<open>Overload resolution\<close>

lemma two_or_more: "1 < length xs \<Longrightarrow> \<exists>a b ys. xs = a # b # ys"
proof (cases xs)
  case Nil
  assume "1 < length xs"
  with Nil show ?thesis by simp
next
  case (Cons a as)
  assume "1 < length xs"
  with Cons show ?thesis by (cases as) auto
qed

text \<open>
  C1. For a name that several entries of the ABI share, resolution against an argument
  list returns the entry that alone among them has the arguments' arity and parameter
  types the codec can encode the arguments as; it fails with \<open>NoMatchingOverload\<close> when
  no candidate is compatible and with \<open>AmbiguousOverload\<close> when more than one is, and both
  errors carry the name and the signatures of the candidates.
\<close>

theorem resolve_overloaded:
  assumes "1 < length (candidates entries name)"
  shows "(\<forall>e. survivors cdc entries name callArgs = [e] \<longrightarrow>
            resolve cdc hasher entries (ByName name) callArgs = Inr e \<and>
            e \<in> set entries \<and> entry_name e = name \<and> compatible cdc e callArgs) \<and>
         (survivors cdc entries name callArgs = [] \<longrightarrow>
            resolve cdc hasher entries (ByName name) callArgs =
              Inl (NoMatchingOverload name (map signature (candidates entries name)))) \<and>
         (1 < length (survivors cdc entries name callArgs) \<longrightarrow>
            resolve cdc hasher entries (ByName name) callArgs =
              Inl (AmbiguousOverload name (map signature (candidates entries name))))"
proof -
  obtain c1 c2 cs where cands: "candidates entries name = c1 # c2 # cs"
    using two_or_more [OF assms] by blast
  have one: "resolve cdc hasher entries (ByName name) callArgs = Inr e \<and>
            e \<in> set entries \<and> entry_name e = name \<and> compatible cdc e callArgs"
    if s: "survivors cdc entries name callArgs = [e]" for e
  proof -
    have "e \<in> set (survivors cdc entries name callArgs)"
      using s by simp
    then have "e \<in> set entries \<and> entry_name e = name \<and> compatible cdc e callArgs"
      by (simp add: survivors_def candidates_def)
    moreover have "resolve cdc hasher entries (ByName name) callArgs = Inr e"
      using s cands by (simp add: resolve_def)
    ultimately show ?thesis by simp
  qed
  have none: "resolve cdc hasher entries (ByName name) callArgs =
              Inl (NoMatchingOverload name (map signature (candidates entries name)))"
    if "survivors cdc entries name callArgs = []"
    using that cands by (simp add: resolve_def)
  have many: "resolve cdc hasher entries (ByName name) callArgs =
              Inl (AmbiguousOverload name (map signature (candidates entries name)))"
    if m: "1 < length (survivors cdc entries name callArgs)"
  proof -
    obtain s1 s2 ss where "survivors cdc entries name callArgs = s1 # s2 # ss"
      using two_or_more [OF m] by blast
    then show ?thesis using cands by (simp add: resolve_def)
  qed
  show ?thesis using one none many by blast
qed

lemma candidates_transfer: "candidates demo_abi ''transfer'' = [transfer2, transfer3]"
  by (simp add: candidates_def demo_defs)

lemma candidates_register:
  "candidates demo_abi ''register'' = [register_address, register_string]"
  by (simp add: candidates_def demo_defs)

lemma survivors_transfer2:
  "survivors demo_codec demo_abi ''transfer'' [PyStr addr0, PyInt 5] = [transfer2]"
  by (simp add: survivors_def candidates_def compatible_def demo_defs)

lemma survivors_transfer3:
  "survivors demo_codec demo_abi ''transfer'' [PyStr addr0, PyInt 5, PyBytes ''00''] = [transfer3]"
  by (simp add: survivors_def candidates_def compatible_def demo_defs)

lemma survivors_transfer1: "survivors demo_codec demo_abi ''transfer'' [PyStr addr0] = []"
  by (simp add: survivors_def candidates_def compatible_def demo_defs)

lemma survivors_register:
  "survivors demo_codec demo_abi ''register'' [PyStr addr0] = [register_address, register_string]"
  by (simp add: survivors_def candidates_def compatible_def demo_defs)

theorem resolve_overloaded_witness:
  "1 < length (candidates demo_abi ''transfer'') \<and>
   resolve demo_codec (keccak demo_w3) demo_abi (ByName ''transfer'') [PyStr addr0, PyInt 5] =
     Inr transfer2 \<and>
   resolve demo_codec (keccak demo_w3) demo_abi (ByName ''transfer'')
     [PyStr addr0, PyInt 5, PyBytes ''00''] = Inr transfer3 \<and>
   resolve demo_codec (keccak demo_w3) demo_abi (ByName ''transfer'') [PyStr addr0] =
     Inl (NoMatchingOverload ''transfer''
            [''transfer(address,uint256)'', ''transfer(address,uint256,bytes)'']) \<and>
   1 < length (candidates demo_abi ''register'') \<and>
   resolve demo_codec (keccak demo_w3) demo_abi (ByName ''register'') [PyStr addr0] =
     Inl (AmbiguousOverload ''register'' [''register(address)'', ''register(string)''])"
proof -
  have ct: "1 < length (candidates demo_abi ''transfer'')"
    by (simp add: candidates_transfer)
  have cr: "1 < length (candidates demo_abi ''register'')"
    by (simp add: candidates_register)
  have sigs:
    "map signature [transfer2, transfer3] =
       [''transfer(address,uint256)'', ''transfer(address,uint256,bytes)'']"
    "map signature [register_address, register_string] =
       [''register(address)'', ''register(string)'']"
    by (simp_all add: signature_def demo_defs)
  note t = resolve_overloaded [OF ct, of demo_codec _ "keccak demo_w3"]
  note r = resolve_overloaded [OF cr, of demo_codec _ "keccak demo_w3"]
  have a: "resolve demo_codec (keccak demo_w3) demo_abi (ByName ''transfer'')
             [PyStr addr0, PyInt 5] = Inr transfer2"
    using t [of "[PyStr addr0, PyInt 5]"] survivors_transfer2 by blast
  have b: "resolve demo_codec (keccak demo_w3) demo_abi (ByName ''transfer'')
             [PyStr addr0, PyInt 5, PyBytes ''00''] = Inr transfer3"
    using t [of "[PyStr addr0, PyInt 5, PyBytes ''00'']"] survivors_transfer3 by blast
  have c: "resolve demo_codec (keccak demo_w3) demo_abi (ByName ''transfer'') [PyStr addr0] =
             Inl (NoMatchingOverload ''transfer''
                    [''transfer(address,uint256)'', ''transfer(address,uint256,bytes)''])"
    using t [of "[PyStr addr0]"] survivors_transfer1 candidates_transfer sigs by simp
  have d: "resolve demo_codec (keccak demo_w3) demo_abi (ByName ''register'') [PyStr addr0] =
             Inl (AmbiguousOverload ''register'' [''register(address)'', ''register(string)''])"
    using r [of "[PyStr addr0]"] survivors_register candidates_register sigs by simp
  show ?thesis using ct cr a b c d by blast
qed

section \<open>Binding arguments\<close>

lemma call_body_heap:
  assumes "p < length h"
  shows "call_body sfi h p (Some a) (Some k) =
     (case sfi ((h ! p)\<lparr>fn_args := Some a, fn_kwargs := Some k\<rparr>) of
        Inl e \<Rightarrow> (Inl e, h @ [(h ! p)\<lparr>fn_args := Some a, fn_kwargs := Some k\<rparr>])
      | Inr obj \<Rightarrow> (Inr (length h), h @ [obj]))"
  using assms
  by (simp add: call_body_def copy_copy_def setattr_def nth_append split: sum.splits)

lemma set_function_info_keeps_arguments:
  "set_function_info obj = Inr obj' \<Longrightarrow>
     fn_args obj' = fn_args obj \<and> fn_kwargs obj' = fn_kwargs obj"
  by (auto simp: set_function_info_def split: sum.splits)

lemma resolve_transfer2:
  "resolve demo_codec (keccak demo_w3) demo_abi (ByName ''transfer'') [PyStr addr0, PyInt 5] =
     Inr transfer2"
  by (simp add: resolve_def candidates_transfer survivors_transfer2)

lemma demo_bind:
  "dunder_call set_function_info [demo_fn] 0 [PyStr addr0, PyInt 5] [] =
     (Inr 1,
      [demo_fn,
       demo_fn\<lparr>fn_abi := Some transfer2,
               fn_selector := Some (selector (keccak demo_w3) transfer2),
               fn_args := Some [PyStr addr0, PyInt 5], fn_kwargs := Some []\<rparr>])"
proof -
  have "set_function_info (demo_fn\<lparr>fn_args := Some [PyStr addr0, PyInt 5], fn_kwargs := Some []\<rparr>) =
        Inr (demo_fn\<lparr>fn_abi := Some transfer2,
               fn_selector := Some (selector (keccak demo_w3) transfer2),
               fn_args := Some [PyStr addr0, PyInt 5], fn_kwargs := Some []\<rparr>)"
    using resolve_transfer2
    by (simp add: set_function_info_def bound_arguments_def demo_fn_def demo_w3_def)
  then show ?thesis
    by (simp add: dunder_call_def call_body_heap)
qed

text \<open>
  C2. Invoking a proxy \<open>p\<close> with arguments leaves every object of the store, \<open>p\<close>
  included, exactly as it was, whether or not resolution succeeds. When it succeeds the
  proxy returned is a new object, distinct from \<open>p\<close>: the copy of \<open>p\<close> whose \<open>args\<close> and
  \<open>kwargs\<close> were replaced by the supplied ones and on which the resolution step then ran.
\<close>

theorem dunder_call_leaves_receiver:
  assumes "p < length h"
  shows "take (length h) (snd (dunder_call sfi h p args kwargs)) = h \<and>
         snd (dunder_call sfi h p args kwargs) ! p = h ! p \<and>
         (\<forall>c. fst (dunder_call sfi h p args kwargs) = Inr c \<longrightarrow>
              c = length h \<and> c \<noteq> p \<and>
              sfi ((h ! p)\<lparr>fn_args := Some args, fn_kwargs := Some kwargs\<rparr>) =
                Inr (snd (dunder_call sfi h p args kwargs) ! c))"
  using assms
  by (cases "sfi ((h ! p)\<lparr>fn_args := Some args, fn_kwargs := Some kwargs\<rparr>)")
     (auto simp: dunder_call_def call_body_heap nth_append)

theorem dunder_call_leaves_receiver_witness:
  "(0::nat) < length [demo_fn] \<and>
   fst (dunder_call set_function_info [demo_fn] 0 [PyStr addr0, PyInt 5] []) = Inr 1 \<and>
   take (length [demo_fn])
     (snd (dunder_call set_function_info [demo_fn] 0 [PyStr addr0, PyInt 5] [])) = [demo_fn] \<and>
   snd (dunder_call set_function_info [demo_fn] 0 [PyStr addr0, PyInt 5] []) ! 0 = demo_fn \<and>
   (1::nat) \<noteq> 0 \<and>
   set_function_info (demo_fn\<lparr>fn_args := Some [PyStr addr0, PyInt 5], fn_kwargs := Some []\<rparr>) =
     Inr (snd (dunder_call set_function_info [demo_fn] 0 [PyStr addr0, PyInt 5] []) ! 1)"
proof -
  have len: "(0::nat) < length [demo_fn]"
    by simp
  have ok: "fst (dunder_call set_function_info [demo_fn] 0 [PyStr addr0, PyInt 5] []) = Inr 1"
    by (simp add: demo_bind)
  from dunder_call_leaves_receiver [OF len, of set_function_info "[PyStr addr0, PyInt 5]" "[]"] ok
  show ?thesis using len by simp
qed

text \<open>
  C10. When the resolution step leaves \<open>args\<close> and \<open>kwargs\<close> alone, the clone an invocation
  returns holds exactly the supplied positional arguments and exactly the supplied
  keyword arguments, neither is \<open>None\<close>, and the body has run on the two packs Python
  built: its \<open>is None\<close> branches are never taken.
\<close>

theorem dunder_call_binds_supplied_arguments:
  assumes "p < length h"
    and "\<forall>obj obj'. sfi obj = Inr obj' \<longrightarrow>
           fn_args obj' = fn_args obj \<and> fn_kwargs obj' = fn_kwargs obj"
    and "dunder_call sfi h p args kwargs = (Inr c, h')"
  shows "fn_args (h' ! c) = Some args \<and> fn_kwargs (h' ! c) = Some kwargs \<and>
         dunder_call sfi h p args kwargs = call_body sfi h p (Some args) (Some kwargs)"
proof -
  let ?bound = "(h ! p)\<lparr>fn_args := Some args, fn_kwargs := Some kwargs\<rparr>"
  from assms(1,3) obtain obj
    where obj: "sfi ?bound = Inr obj" and c: "c = length h" and h': "h' = h @ [obj]"
    by (cases "sfi ?bound") (auto simp: dunder_call_def call_body_heap)
  from assms(2) obj have "fn_args obj = Some args \<and> fn_kwargs obj = Some kwargs"
    by fastforce
  then show ?thesis using c h' by (simp add: dunder_call_def)
qed

theorem dunder_call_binds_supplied_arguments_witness:
  "(0::nat) < length [demo_fn] \<and>
   dunder_call set_function_info [demo_fn] 0 [PyStr addr0, PyInt 5] [] =
     (Inr 1,
      [demo_fn,
       demo_fn\<lparr>fn_abi := Some transfer2,
               fn_selector := Some (selector (keccak demo_w3) transfer2),
               fn_args := Some [PyStr addr0, PyInt 5], fn_kwargs := Some []\<rparr>]) \<and>
   fn_args ([demo_fn,
       demo_fn\<lparr>fn_abi := Some transfer2,
               fn_selector := Some (selector (keccak demo_w3) transfer2),
               fn_args := Some [PyStr addr0, PyInt 5], fn_kwargs := Some []\<rparr>] ! 1) =
     Some [PyStr addr0, PyInt 5] \<and>
   fn_kwargs ([demo_fn,
       demo_fn\<lparr>fn_abi := Some transfer2,
               fn_selector := Some (selector (keccak demo_w3) transfer2),
               fn_args := Some [PyStr addr0, PyInt 5], fn_kwargs := Some []\<rparr>] ! 1) = Some []"
proof -
  have len: "(0::nat) < length [demo_fn]"
    by simp
  have keeps: "\<forall>obj obj'. set_function_info obj = Inr obj' \<longrightarrow>
                 fn_args obj' = fn_args obj \<and> fn_kwargs obj' = fn_kwargs obj"
    using set_function_info_keeps_arguments by blast
  from dunder_call_binds_supplied_arguments [OF len keeps demo_bind]
  show ?thesis using len demo_bind by blast
qed

section \<open>Event logs\<close>

lemma traverse_map: "map f xs = map Inr ys \<Longrightarrow> traverse f xs = Inr ys"
  by (induction xs arbitrary: ys) auto

text \<open>
  C3. With a block hash and a \<open>fromBlock\<close> or \<open>toBlock\<close>, event log retrieval fails and
  the request list is what it was: nothing is sent to the node. The failure is the
  invalid-filter-parameters error whenever the event's ABI entry is found.
\<close>

theorem get_logs_rejects_block_hash_with_range:
  assumes "block_hash \<noteq> None" and "fromBlock \<noteq> None \<or> toBlock \<noteq> None"
  shows "snd (get_logs ged gea get_event_filter_params self af fromBlock toBlock block_hash tr) = tr \<and>
         (\<exists>e. fst (get_logs ged gea get_event_filter_params self af fromBlock toBlock block_hash tr) = Inl e) \<and>
         (\<forall>abi_e. gea self = Inr abi_e \<longrightarrow>
            fst (get_logs ged gea get_event_filter_params self af fromBlock toBlock block_hash tr) =
              Inl (InvalidFilterParams
                     ''blockHash cannot be set at the same time as fromBlock or toBlock''))"
  using assms
  by (cases "gea self") (auto simp: get_logs_def get_event_filter_params_def)

text \<open>
  Without a block hash the filter parameters are always built, whatever the argument
  filters and the block range.
\<close>

lemma range_params_always_build:
  "get_event_filter_params self abi_e af fromBlock toBlock None =
     Inr \<lparr>fp_address = ev_address self,
          fp_topics = construct_event_topics (ev_w3 self) abi_e
                        (case af of None \<Rightarrow> [] | Some fs \<Rightarrow> fs),
          fp_fromBlock = fromBlock, fp_toBlock = toBlock, fp_blockHash = None\<rparr>"
  by (simp add: get_event_filter_params_def)

text \<open>
  C4. Once the event's ABI entry and the filter parameters are built, \<open>get_logs\<close> adds to
  the request list exactly one request, the historical-log query with those parameters,
  and no filter installation; when the node answers with log entries, the result is the
  decoder applied with the event's ABI entry to each entry, in the node's order.
\<close>

theorem get_logs_one_request_decoded_in_order:
  assumes "gea self = Inr abi_e"
    and "gefp self abi_e af fromBlock toBlock block_hash = Inr params"
  shows "snd (get_logs ged gea gefp self af fromBlock toBlock block_hash tr) =
           tr @ [EthGetLogs params] \<and>
         (\<forall>logs. eth_get_logs (ev_w3 self) tr params = Inr logs \<longrightarrow>
            fst (get_logs ged gea gefp self af fromBlock toBlock block_hash tr) =
              traverse (ged (codec (ev_w3 self)) abi_e) logs \<and>
            (\<forall>evs. map (ged (codec (ev_w3 self)) abi_e) logs = map Inr evs \<longrightarrow>
               fst (get_logs ged gea gefp self af fromBlock toBlock block_hash tr) = Inr evs))"
  using assms
  by (cases "eth_get_logs (ev_w3 self) tr params") (auto simp: get_logs_def traverse_map)

text \<open>
  C5. A filter handle that \<open>create_filter\<close> returns is the one \<open>deploy\<close> returned for the
  set-up builder on the event's node, with that builder stored and with a formatter that
  is the log decoder applied to the event's codec and ABI entry. What \<open>get_logs\<close> produces
  is what the stored formatter gives, entry by entry: when the node returns one entry,
  \<open>get_logs\<close> returns the one-element tuple of the formatter's decoded event, or raises the
  formatter's error; when the formatter decodes every entry of a returned list,
  \<open>get_logs\<close> returns exactly those decoded events, in order.
\<close>

theorem create_filter_formatter_decodes_like_get_logs:
  assumes "create_filter ged gea sufb dep self af fromBlock toBlock addr topics tr = (Inr lf, tr')"
  shows "\<exists>abi_e b lf0 fmt.
           gea self = Inr abi_e \<and>
           sufb self af fromBlock (case toBlock of None \<Rightarrow> BlockTag ''latest'' | Some t \<Rightarrow> t)
             addr topics (AsyncEventFilterBuilder abi_e (codec (ev_w3 self)) None) = Inr b \<and>
           dep b (ev_w3 self) tr = (Inr lf0, tr') \<and>
           lf = lf0\<lparr>log_entry_formatter := Some fmt, builder := Some b\<rparr> \<and>
           log_entry_formatter lf = Some fmt \<and>
           fmt = ged (codec (ev_w3 self)) abi_e \<and>
           (\<forall>gefp af2 fb2 tb2 bh2 tr2 params logs.
              gefp self abi_e af2 fb2 tb2 bh2 = Inr params \<and>
              eth_get_logs (ev_w3 self) tr2 params = Inr logs \<longrightarrow>
              (\<forall>entry d. logs = [entry] \<and> fmt entry = Inr d \<longrightarrow>
                 fst (get_logs ged gea gefp self af2 fb2 tb2 bh2 tr2) = Inr [d]) \<and>
              (\<forall>entry e. logs = [entry] \<and> fmt entry = Inl e \<longrightarrow>
                 fst (get_logs ged gea gefp self af2 fb2 tb2 bh2 tr2) = Inl e) \<and>
              (\<forall>evs. map fmt logs = map Inr evs \<longrightarrow>
                 fst (get_logs ged gea gefp self af2 fb2 tb2 bh2 tr2) = Inr evs))"
proof -
  from assms obtain abi_e where abi_e: "gea self = Inr abi_e"
    by (cases "gea self") (auto simp: create_filter_def)
  let ?tb = "case toBlock of None \<Rightarrow> BlockTag ''latest'' | Some t \<Rightarrow> t"
  let ?b0 = "AsyncEventFilterBuilder abi_e (codec (ev_w3 self)) None :: 'a filter_builder"
  let ?fmt = "ged (codec (ev_w3 self)) abi_e"
  from assms abi_e obtain b where b: "sufb self af fromBlock ?tb addr topics ?b0 = Inr b"
    by (cases "sufb self af fromBlock ?tb addr topics ?b0") (auto simp: create_filter_def)
  from assms abi_e b obtain lf0 where lf0: "dep b (ev_w3 self) tr = (Inr lf0, tr')"
    and lf: "lf = lf0\<lparr>log_entry_formatter := Some ?fmt, builder := Some b\<rparr>"
    by (cases "dep b (ev_w3 self) tr"; cases "fst (dep b (ev_w3 self) tr)")
       (auto simp: create_filter_def)
  have pinned:
    "(\<forall>entry d. logs = [entry] \<and> ?fmt entry = Inr d \<longrightarrow>
        fst (get_logs ged gea gefp self af2 fb2 tb2 bh2 tr2) = Inr [d]) \<and>
     (\<forall>entry e. logs = [entry] \<and> ?fmt entry = Inl e \<longrightarrow>
        fst (get_logs ged gea gefp self af2 fb2 tb2 bh2 tr2) = Inl e) \<and>
     (\<forall>evs. map ?fmt logs = map Inr evs \<longrightarrow>
        fst (get_logs ged gea gefp self af2 fb2 tb2 bh2 tr2) = Inr evs)"
    if "gefp self abi_e af2 fb2 tb2 bh2 = Inr params"
      and "eth_get_logs (ev_w3 self) tr2 params = Inr logs"
    for gefp af2 fb2 tb2 bh2 tr2 params logs
  proof -
    have run: "fst (get_logs ged gea gefp self af2 fb2 tb2 bh2 tr2) = traverse ?fmt logs"
      using that abi_e by (simp add: get_logs_def)
    show ?thesis
      by (auto simp: run traverse_map)
  qed
  show ?thesis
  proof (intro exI conjI)
    show "gea self = Inr abi_e" by (rule abi_e)
    show "sufb self af fromBlock ?tb addr topics ?b0 = Inr b" by (rule b)
    show "dep b (ev_w3 self) tr = (Inr lf0, tr')" by (rule lf0)
    show "lf = lf0\<lparr>log_entry_formatter := Some ?fmt, builder := Some b\<rparr>" by (rule lf)
    show "log_entry_formatter lf = Some ?fmt" by (simp add: lf)
    show "?fmt = ged (codec (ev_w3 self)) abi_e" by simp
    show "\<forall>gefp af2 fb2 tb2 bh2 tr2 params logs.
              gefp self abi_e af2 fb2 tb2 bh2 = Inr params \<and>
              eth_get_logs (ev_w3 self) tr2 params = Inr logs \<longrightarrow>
              (\<forall>entry d. logs = [entry] \<and> ?fmt entry = Inr d \<longrightarrow>
                 fst (get_logs ged gea gefp self af2 fb2 tb2 bh2 tr2) = Inr [d]) \<and>
              (\<forall>entry e. logs = [entry] \<and> ?fmt entry = Inl e \<longrightarrow>
                 fst (get_logs ged gea gefp self af2 fb2 tb2 bh2 tr2) = Inl e) \<and>
              (\<forall>evs. map ?fmt logs = map Inr evs \<longrightarrow>
                 fst (get_logs ged gea gefp self af2 fb2 tb2 bh2 tr2) = Inr evs)"
      using pinned by blast
  qed
qed

lemma demo_event_abi: "demo_get_event_abi demo_event = Inr transfer_event"
  by (simp add: demo_get_event_abi_def demo_event_def transfer_event_def)

lemma demo_event_params:
  "get_event_filter_params demo_event transfer_event None (Some (BlockNumber 100))
     (Some (BlockNumber 110)) None = Inr demo_params"
  by (simp add: get_event_filter_params_def construct_event_topics_def argument_topic_def
      demo_event_def transfer_event_def demo_params_def demo_w3_def signature_def)

lemma demo_decode: "demo_get_event_data (codec (ev_w3 demo_event)) transfer_event demo_log = Inr demo_decoded"
  by (simp add: demo_get_event_data_def transfer_event_def demo_log_def demo_decoded_def)

lemma demo_node_logs: "eth_get_logs (ev_w3 demo_event) tr params = Inr [demo_log]"
  by (simp add: demo_event_def demo_w3_def)

theorem get_logs_rejects_block_hash_with_range_witness:
  "get_logs demo_get_event_data demo_get_event_abi get_event_filter_params demo_event None
     (Some (BlockNumber 100)) None (Some ''0xabc'') [] =
   (Inl (InvalidFilterParams ''blockHash cannot be set at the same time as fromBlock or toBlock''), [])"
proof -
  have h1: "Some ''0xabc'' \<noteq> (None :: hexstr option)"
    by simp
  have h2: "Some (BlockNumber 100) \<noteq> None \<or> (None :: block_identifier option) \<noteq> None"
    by simp
  from get_logs_rejects_block_hash_with_range [OF h1 h2, of demo_get_event_data demo_get_event_abi demo_event None "[]"]
    demo_event_abi
  show ?thesis by (simp add: prod_eq_iff)
qed

theorem get_logs_one_request_decoded_in_order_witness:
  "demo_get_event_abi demo_event = Inr transfer_event \<and>
   get_event_filter_params demo_event transfer_event None (Some (BlockNumber 100))
     (Some (BlockNumber 110)) None = Inr demo_params \<and>
   get_logs demo_get_event_data demo_get_event_abi get_event_filter_params demo_event None
     (Some (BlockNumber 100)) (Some (BlockNumber 110)) None [] =
   (Inr [demo_decoded], [EthGetLogs demo_params])"
proof -
  have dec: "map (demo_get_event_data (codec (ev_w3 demo_event)) transfer_event) [demo_log] =
             map Inr [demo_decoded]"
    by (simp add: demo_decode)
  from get_logs_one_request_decoded_in_order
      [where gea = demo_get_event_abi and gefp = get_event_filter_params
         and ged = demo_get_event_data and tr = "[]", OF demo_event_abi demo_event_params]
    demo_node_logs dec
  have "snd (get_logs demo_get_event_data demo_get_event_abi get_event_filter_params demo_event None
     (Some (BlockNumber 100)) (Some (BlockNumber 110)) None []) = [EthGetLogs demo_params] \<and>
     fst (get_logs demo_get_event_data demo_get_event_abi get_event_filter_params demo_event None
     (Some (BlockNumber 100)) (Some (BlockNumber 110)) None []) = Inr [demo_decoded]"
    by simp
  then show ?thesis using demo_event_abi demo_event_params by (simp add: prod_eq_iff)
qed

lemma demo_create_filter:
  "\<exists>lf. create_filter demo_get_event_data demo_get_event_abi demo_set_up_filter_builder deploy
     demo_event None (Some (BlockNumber 100)) (Some (BlockNumber 110)) None None [] =
   (Inr lf, [EthNewFilter demo_params])"
  unfolding create_filter_def demo_event_abi
  by (simp add: demo_set_up_filter_builder_def deploy_def AsyncEventFilterBuilder_def
      builder_filter_params_def construct_event_topics_def argument_topic_def
      demo_params_def demo_event_def demo_w3_def transfer_event_def signature_def)

theorem create_filter_formatter_decodes_like_get_logs_witness:
  "(\<exists>lf fmt. create_filter demo_get_event_data demo_get_event_abi demo_set_up_filter_builder deploy
       demo_event None (Some (BlockNumber 100)) (Some (BlockNumber 110)) None None [] =
       (Inr lf, [EthNewFilter demo_params]) \<and>
     log_entry_formatter lf = Some fmt \<and> fmt demo_log = Inr demo_decoded) \<and>
   eth_get_logs (ev_w3 demo_event) [] demo_params = Inr [demo_log] \<and>
   get_logs demo_get_event_data demo_get_event_abi get_event_filter_params demo_event None
     (Some (BlockNumber 100)) (Some (BlockNumber 110)) None [] =
     (Inr [demo_decoded], [EthGetLogs demo_params])"
proof -
  from demo_create_filter obtain lf where
    cf: "create_filter demo_get_event_data demo_get_event_abi demo_set_up_filter_builder deploy
     demo_event None (Some (BlockNumber 100)) (Some (BlockNumber 110)) None None [] =
   (Inr lf, [EthNewFilter demo_params])"
    by blast
  from create_filter_formatter_decodes_like_get_logs [OF cf]
  obtain abi_e fmt where ab: "demo_get_event_abi demo_event = Inr abi_e"
    and fmt: "log_entry_formatter lf = Some fmt"
    and eq: "fmt = demo_get_event_data (codec (ev_w3 demo_event)) abi_e"
    and gl: "\<forall>gefp af2 fb2 tb2 bh2 tr2 params logs.
              gefp demo_event abi_e af2 fb2 tb2 bh2 = Inr params \<and>
              eth_get_logs (ev_w3 demo_event) tr2 params = Inr logs \<longrightarrow>
              (\<forall>entry d. logs = [entry] \<and> fmt entry = Inr d \<longrightarrow>
                 fst (get_logs demo_get_event_data demo_get_event_abi gefp demo_event
                        af2 fb2 tb2 bh2 tr2) = Inr [d]) \<and>
              (\<forall>entry e. logs = [entry] \<and> fmt entry = Inl e \<longrightarrow>
                 fst (get_logs demo_get_event_data demo_get_event_abi gefp demo_event
                        af2 fb2 tb2 bh2 tr2) = Inl e) \<and>
              (\<forall>evs. map fmt logs = map Inr evs \<longrightarrow>
                 fst (get_logs demo_get_event_data demo_get_event_abi gefp demo_event
                        af2 fb2 tb2 bh2 tr2) = Inr evs)"
    by blast
  from ab demo_event_abi have abi_e: "abi_e = transfer_event"
    by simp
  have dec: "fmt demo_log = Inr demo_decoded"
    using eq abi_e demo_decode by simp
  have node: "eth_get_logs (ev_w3 demo_event) [] demo_params = Inr [demo_log]"
    by (rule demo_node_logs)
  from gl abi_e demo_event_params node dec
  have res: "fst (get_logs demo_get_event_data demo_get_event_abi get_event_filter_params demo_event
       None (Some (BlockNumber 100)) (Some (BlockNumber 110)) None []) = Inr [demo_decoded]"
    by blast
  have req: "snd (get_logs demo_get_event_data demo_get_event_abi get_event_filter_params demo_event
       None (Some (BlockNumber 100)) (Some (BlockNumber 110)) None []) = [EthGetLogs demo_params]"
    using demo_event_abi demo_event_params node by (simp add: get_logs_def)
  from res req have
    "get_logs demo_get_event_data demo_get_event_abi get_event_filter_params demo_event None
       (Some (BlockNumber 100)) (Some (BlockNumber 110)) None [] =
     (Inr [demo_decoded], [EthGetLogs demo_params])"
    by (simp add: prod_eq_iff)
  then show ?thesis using cf fmt dec node by blast
qed

section \<open>Dispatch\<close>

text \<open>
  C7. \<open>call\<close> without a block identifier is \<open>call\<close> with \<open>"latest"\<close>. The identifier goes
  through the block-identifier resolver first: when the resolver fails nothing further is
  requested, and when it succeeds the read-only request is issued after it, for the block
  the resolver returned. On a bound proxy whose call data encodes, whose request the node
  answers and whose payload decodes, the result is the decoded values packed per the
  outputs of the proxy's resolved entry.
\<close>

theorem call_latest_resolved_then_decoded:
  "call gctp parse async_call_contract_function self transaction None so cc tr =
     call gctp parse async_call_contract_function self transaction (Some (BlockTag ''latest'')) so cc tr \<and>
   (\<forall>ctx e tr1.
      gctp self transaction = Inr ctx \<and>
      parse (fn_w3 self) (BlockTag ''latest'') tr = (Inl e, tr1) \<longrightarrow>
      call gctp parse async_call_contract_function self transaction None so cc tr = (Inl e, tr1)) \<and>
   (\<forall>ctx block_id tr1 entry a k data raw vals.
      gctp self transaction = Inr ctx \<and>
      parse (fn_w3 self) (BlockTag ''latest'') tr = (Inr block_id, tr1) \<and>
      fn_abi self = Some entry \<and> fn_args self = Some a \<and> fn_kwargs self = Some k \<and>
      encode_fn_call (codec (fn_w3 self)) entry a k = Inr data \<and>
      eth_call (fn_w3 self) tr1 (ctx @ [(''data'', PyStr data)]) block_id so = Inr raw \<and>
      decode_output (codec (fn_w3 self)) (map param_type (outputs entry)) raw = Inr vals \<longrightarrow>
      call gctp parse async_call_contract_function self transaction None so cc tr =
        (Inr (pack_outputs (outputs entry) vals),
         tr1 @ [EthCall (ctx @ [(''data'', PyStr data)]) block_id so]))"
proof (intro conjI allI impI)
  show "call gctp parse async_call_contract_function self transaction None so cc tr =
     call gctp parse async_call_contract_function self transaction (Some (BlockTag ''latest'')) so cc tr"
    by (cases "gctp self transaction") (simp_all add: call_def)
next
  fix ctx e tr1
  assume "gctp self transaction = Inr ctx \<and>
      parse (fn_w3 self) (BlockTag ''latest'') tr = (Inl e, tr1)"
  then show "call gctp parse async_call_contract_function self transaction None so cc tr = (Inl e, tr1)"
    by (simp add: call_def)
next
  fix ctx block_id tr1 entry a k data raw vals
  assume "gctp self transaction = Inr ctx \<and>
      parse (fn_w3 self) (BlockTag ''latest'') tr = (Inr block_id, tr1) \<and>
      fn_abi self = Some entry \<and> fn_args self = Some a \<and> fn_kwargs self = Some k \<and>
      encode_fn_call (codec (fn_w3 self)) entry a k = Inr data \<and>
      eth_call (fn_w3 self) tr1 (ctx @ [(''data'', PyStr data)]) block_id so = Inr raw \<and>
      decode_output (codec (fn_w3 self)) (map param_type (outputs entry)) raw = Inr vals"
  then show "call gctp parse async_call_contract_function self transaction None so cc tr =
        (Inr (pack_outputs (outputs entry) vals),
         tr1 @ [EthCall (ctx @ [(''data'', PyStr data)]) block_id so])"
    by (simp add: call_def async_call_contract_function_def star_args_def star_kwargs_def)
qed

lemma bound_fn_facts:
  "fn_abi bound_fn = Some transfer2" "fn_args bound_fn = Some [PyStr addr0, PyInt 5]"
  "fn_kwargs bound_fn = Some []" "fn_w3 bound_fn = demo_w3" "fn_address bound_fn = Some addr0"
  by (simp_all add: bound_fn_def demo_fn_def)

theorem call_latest_resolved_then_decoded_witness:
  "call demo_get_call_txparams demo_parse_block_identifier async_call_contract_function
     bound_fn None None None None [] =
   (Inr (PyBool True),
    [EthGetBlock (BlockTag ''latest''),
     EthCall [(''to'', PyStr addr0), (''data'', PyStr ''0xtransfer(address,uint256)'')]
       (BlockNumber 17) None])"
proof -
  have a: "demo_get_call_txparams bound_fn None = Inr [(''to'', PyStr addr0)]"
    by (simp add: demo_get_call_txparams_def bound_fn_facts)
  have b: "demo_parse_block_identifier (fn_w3 bound_fn) (BlockTag ''latest'') [] =
             (Inr (BlockNumber 17), [EthGetBlock (BlockTag ''latest'')])"
    by (simp add: demo_parse_block_identifier_def)
  have c: "encode_fn_call (codec (fn_w3 bound_fn)) transfer2 [PyStr addr0, PyInt 5] [] =
             Inr ''0xtransfer(address,uint256)''"
    by (simp add: bound_fn_facts demo_w3_def demo_codec_def signature_def transfer2_def)
  have d: "eth_call (fn_w3 bound_fn) [EthGetBlock (BlockTag ''latest'')]
             ([(''to'', PyStr addr0)] @ [(''data'', PyStr ''0xtransfer(address,uint256)'')])
             (BlockNumber 17) None = Inr ''0x01''"
    by (simp add: bound_fn_facts demo_w3_def)
  have e: "decode_output (codec (fn_w3 bound_fn)) (map param_type (outputs transfer2)) ''0x01'' =
             Inr [PyBool True]"
    by (simp add: bound_fn_facts demo_w3_def demo_codec_def transfer2_def)
  have f: "pack_outputs (outputs transfer2) [PyBool True] = PyBool True"
    by (simp add: pack_outputs_def)
  from call_latest_resolved_then_decoded [of demo_get_call_txparams demo_parse_block_identifier
      bound_fn None None None "[]"] a b c d e bound_fn_facts(1-3)
  have "call demo_get_call_txparams demo_parse_block_identifier async_call_contract_function
     bound_fn None None None None [] =
     (Inr (pack_outputs (outputs transfer2) [PyBool True]),
      [EthGetBlock (BlockTag ''latest'')] @
      [EthCall ([(''to'', PyStr addr0)] @ [(''data'', PyStr ''0xtransfer(address,uint256)'')])
        (BlockNumber 17) None])"
    by blast
  then show ?thesis using f by simp
qed

text \<open>
  What the four dispatch methods hand over. None of them resolves: on a proxy with bound
  arguments, once the transaction is prepared (and, for \<open>call\<close>, the block identifier
  resolved), the helper receives the proxy's own stored entry, identifier, contract ABI
  and arguments, and its outcome is the method's outcome.
\<close>

lemma dispatch_hands_over_proxy_attributes:
  assumes "fn_args self = Some a" and "fn_kwargs self = Some k"
  shows "(gctp self tx = Inr ctx \<and>
          parse (fn_w3 self) (case bi of None \<Rightarrow> BlockTag ''latest'' | Some b \<Rightarrow> b) tr =
            (Inr block_id, tr1) \<longrightarrow>
          call gctp parse call_helper self tx bi so cc tr =
            call_helper (fn_w3 self) (fn_address self) (fn_return_data_normalizers self)
              (fn_identifier self) ctx block_id (fn_contract_abi self) (fn_abi self)
              so cc a k tr1) \<and>
         (prep self tx = Inr stx \<longrightarrow>
          transact prep transact_helper self tx tr =
            transact_helper (fn_address self) (fn_w3 self) (fn_identifier self) stx
              (fn_contract_abi self) (fn_abi self) a k tr \<and>
          estimate_gas prep estimate_helper self tx bi tr =
            estimate_helper (fn_address self) (fn_w3 self) (fn_identifier self) stx
              (fn_contract_abi self) (fn_abi self) bi a k tr \<and>
          build_transaction prep build_helper self tx tr =
            build_helper (fn_address self) (fn_w3 self) (fn_identifier self) stx
              (fn_contract_abi self) (fn_abi self) a k tr)"
  using assms
  by (simp add: call_def transact_def estimate_gas_def build_transaction_def
      star_args_def star_kwargs_def)

end
